theory Spec2Isabelle
  imports Main "HOL-Library.Word" "HOL-Library.Finite_Map" "HOL-Library.Char_ord" "HOL-Library.List_Lexorder"
begin

section \<open>Branch-name slugs (internal/worktree/manager.go, slugify)\<close>

text \<open>
  Go strings are byte strings, here \<^typ>\<open>string\<close>. \<^verbatim>\<open>strings.ToLower\<close> is a library
  function over Unicode; \<open>slugify\<close> takes it as the parameter \<open>ToLower\<close>, and every
  property below holds for every such function. \<open>ascii_ToLower\<close> is what the library
  function does on ASCII input and is used to run examples.

  The regular expression \<^verbatim>\<open>[^a-z0-9]+\<close> works on UTF-8 runes. Every byte of a
  non-ASCII rune, and every invalid byte, is at least 0x80 and so outside \<^verbatim>\<open>a-z0-9\<close>,
  while each ASCII byte is a rune of its own: a maximal run of runes outside the class is
  a maximal run of bytes outside the class, and \<open>ReplaceAllString\<close> below replaces each
  such run of bytes by one dash. \<^verbatim>\<open>len(s)\<close> and \<^verbatim>\<open>s[:30]\<close> count bytes, as
  \<open>length\<close> and \<open>take\<close> do here.
\<close>

definition ascii_ToLower :: "string \<Rightarrow> string" where
  "ascii_ToLower s =
     map (\<lambda>c. if 65 \<le> (of_char c :: nat) \<and> (of_char c :: nat) \<le> 90
              then char_of ((of_char c :: nat) + 32) else c) s"

definition dash :: char where
  "dash = CHR ''-''"

definition is_alnum :: "char \<Rightarrow> bool" where
  "is_alnum c \<longleftrightarrow>
     (97 \<le> (of_char c :: nat) \<and> (of_char c :: nat) \<le> 122) \<or>
     (48 \<le> (of_char c :: nat) \<and> (of_char c :: nat) \<le> 57)"

function ReplaceAllString :: "string \<Rightarrow> string" where
  "ReplaceAllString [] = []"
| "ReplaceAllString (c # cs) =
     (if is_alnum c then c # ReplaceAllString cs
      else dash # ReplaceAllString (dropWhile (\<lambda>x. \<not> is_alnum x) cs))"
  by pat_completeness auto
termination
  by (relation "measure length") (auto simp add: length_dropWhile_le le_imp_less_Suc)

definition Trim :: "string \<Rightarrow> string" where
  "Trim s = rev (dropWhile (\<lambda>x. x = dash) (rev (dropWhile (\<lambda>x. x = dash) s)))"

definition slug_untruncated :: "(string \<Rightarrow> string) \<Rightarrow> string \<Rightarrow> string" where
  "slug_untruncated ToLower s = Trim (ReplaceAllString (ToLower s))"

definition slugify :: "(string \<Rightarrow> string) \<Rightarrow> string \<Rightarrow> string" where
  "slugify ToLower s =
     (let s1 = slug_untruncated ToLower s
      in if length s1 > 30 then take 30 s1 else s1)"


fun no_adjacent_dash :: "string \<Rightarrow> bool" where
  "no_adjacent_dash (x # y # zs) = ((x \<noteq> dash \<or> y \<noteq> dash) \<and> no_adjacent_dash (y # zs))"
| "no_adjacent_dash _ = True"

definition starts_with_dash :: "string \<Rightarrow> bool" where
  "starts_with_dash s \<longleftrightarrow> s \<noteq> [] \<and> hd s = dash"


section \<open>Errors\<close>

text \<open>
  Go errors are values. The constructors follow the messages of the source:
  \<open>ErrAgentNotFound id\<close> is \<^verbatim>\<open>agent %s not found\<close>, \<open>ErrSessionExists id\<close> is
  \<^verbatim>\<open>session %s already exists\<close>, \<open>ErrSessionNotFound id\<close> is
  \<^verbatim>\<open>session %s not found\<close>, and \<open>ErrWrap msg e\<close> is \<^verbatim>\<open>fmt.Errorf(msg + ": %w", e)\<close>.
  The others are errors of the libraries the code calls: a failed subprocess (\<open>ErrExec\<close>),
  a failed call of package os (\<open>ErrOS\<close>, \<open>ErrNotExist\<close>, \<open>ErrClosed\<close>,
  \<open>ErrProcessDone\<close>), a failed start of a pseudo-terminal (\<open>ErrSpawn\<close>), and the
  syntax and type errors of \<^verbatim>\<open>json.Unmarshal\<close>. \<open>ErrNilAgent\<close> marks a
  \<^verbatim>\<open>null\<close> agent in a state file, which Go reads as a nil pointer and the model
  does not represent.
\<close>

datatype error =
    ErrNotGitRepo string
  | ErrAgentNotFound string
  | ErrWrap string error
  | ErrExec string
  | ErrOS string
  | ErrNotExist string
  | ErrJSONSyntax
  | ErrJSONType string
  | ErrNilAgent string
  | ErrSessionExists string
  | ErrSessionNotFound string
  | ErrSpawn string
  | ErrClosed
  | ErrProcessDone

section \<open>Persistent state (package worktree, the state file)\<close>

text \<open>
  A JSON document as a tree. Numbers are integers: the program writes no other number, and
  reading a number with a fraction into an \<^verbatim>\<open>int\<close> field is a type error in Go.
\<close>

datatype json =
    JNull
  | JBool bool
  | JNumber int
  | JString string
  | JArray "json list"
  | JObject "(string \<times> json) list"

text \<open>
  A \<^verbatim>\<open>time.Time\<close> is represented by its RFC 3339 text, the form in which it is written
  to the state file: the instant with its zone offset. The monotonic clock reading that
  \<^verbatim>\<open>time.Now\<close> attaches in memory is not part of the model, and the model does not
  check the syntax of a time read from a file. \<open>AgentStatus\<close> is a Go string type with
  six named constants; any string is a value of it.

  The Go map \<^verbatim>\<open>map[string]*Agent\<close> is a finite map. The map holds pointers: an
  assignment through a pointer obtained from the map changes the entry the map holds,
  which the model writes as an update of the entry under the key the pointer was looked up
  with (\<open>assign_agent\<close> below). A nil pointer as map value, which no operation stores, is
  outside the model. \<^verbatim>\<open>ConflictsResolved\<close> and \<^verbatim>\<open>ConflictsEscalated\<close> are Go
  \<^verbatim>\<open>int\<close>s, 64-bit words.
\<close>

type_synonym Time = string
type_synonym AgentStatus = string

definition StatusRunning :: AgentStatus where "StatusRunning = ''running''"
definition StatusMerged :: AgentStatus where "StatusMerged = ''merged''"
definition StatusFailed :: AgentStatus where "StatusFailed = ''failed''"

record Agent =
  ID :: string
  Branch :: string
  Worktree :: string
  Task :: string
  Status :: AgentStatus
  BaseBranch :: string
  BaseCommit :: string
  CreatedAt :: Time
  MergedAt :: "Time option"

record MergeRecord =
  AgentID :: string
  MergedAt_rec :: Time
  MergeCommit :: string
  ConflictsResolved :: "64 word"
  ConflictsEscalated :: "64 word"

record State =
  Version :: string
  RepoRoot :: string
  WorktreeDir :: string
  Agents :: "(string, Agent) fmap"
  MergeHistory :: "MergeRecord list"

definition NewState :: "string \<Rightarrow> State" where
  "NewState repoRoot =
     \<lparr>Version = ''1.0'', RepoRoot = repoRoot, WorktreeDir = ''.worktrees'',
      Agents = fmempty, MergeHistory = []\<rparr>"

text \<open>
  \<^verbatim>\<open>filepath.Join\<close> drops empty elements and joins the others with a slash;
  \<^verbatim>\<open>filepath.Dir\<close> drops the last element. Both then normalise the path lexically
  (\<^verbatim>\<open>filepath.Clean\<close>), which the model leaves out: the properties below need only that
  equal roots give equal paths.
\<close>

fun join_elems :: "string list \<Rightarrow> string" where
  "join_elems [] = []"
| "join_elems [e] = e"
| "join_elems (e # es) = e @ ''/'' @ join_elems es"

definition Join :: "string list \<Rightarrow> string" where
  "Join elems = join_elems (filter (\<lambda>e. e \<noteq> []) elems)"

definition Dir :: "string \<Rightarrow> string" where
  "Dir p =
     (let d = rev (drop 1 (dropWhile (\<lambda>c. c \<noteq> CHR ''/'') (rev p)))
      in if d = [] then (if CHR ''/'' \<in> set p then ''/'' else ''.'') else d)"

definition StateFilePath :: "string \<Rightarrow> string" where
  "StateFilePath repoRoot = Join [repoRoot, ''.cwt'', ''state.json'']"


subsection \<open>The documents that the struct tags describe\<close>

text \<open>
  \<^verbatim>\<open>encoding/json\<close> writes a struct as an object with one member per field, named
  by the field's tag, in the order of the fields; a nil pointer field tagged
  \<^verbatim>\<open>omitempty\<close> is left out; a map is written as an object with its keys in sorted
  order; a \<^verbatim>\<open>time.Time\<close> is written as a string.
\<close>

definition agent_json :: "Agent \<Rightarrow> json" where
  "agent_json a =
     JObject ([(''id'', JString (ID a)),
               (''branch'', JString (Branch a)),
               (''worktree'', JString (Worktree a)),
               (''task'', JString (Task a)),
               (''status'', JString (Status a)),
               (''baseBranch'', JString (BaseBranch a)),
               (''baseCommit'', JString (BaseCommit a)),
               (''createdAt'', JString (CreatedAt a))] @
              (case MergedAt a of None \<Rightarrow> [] | Some t \<Rightarrow> [(''mergedAt'', JString t)]))"

definition merge_record_json :: "MergeRecord \<Rightarrow> json" where
  "merge_record_json r =
     JObject [(''agentId'', JString (AgentID r)),
              (''mergedAt'', JString (MergedAt_rec r)),
              (''mergeCommit'', JString (MergeCommit r)),
              (''conflictsResolved'', JNumber (sint (ConflictsResolved r))),
              (''conflictsEscalated'', JNumber (sint (ConflictsEscalated r)))]"

definition state_json :: "State \<Rightarrow> json" where
  "state_json s =
     JObject [(''version'', JString (Version s)),
              (''repoRoot'', JString (RepoRoot s)),
              (''worktreeDir'', JString (WorktreeDir s)),
              (''agents'', JObject (map (\<lambda>(k, a). (k, agent_json a))
                                       (sorted_list_of_fmap (Agents s)))),
              (''mergeHistory'', JArray (map merge_record_json (MergeHistory s)))]"

text \<open>
  Reading a document into a struct: of several members with one name the last one counts,
  members with other names are ignored, an absent member or \<^verbatim>\<open>null\<close> leaves the
  field at its zero value, and a value of the wrong kind is a type error (the decoder
  also accepts a name that differs from the tag in letter case only, which the encoder
  never writes and the model does not accept).
\<close>

definition object_member :: "string \<Rightarrow> (string \<times> json) list \<Rightarrow> json option" where
  "object_member k kvs = map_of (rev kvs) k"

definition bind_err :: "error + 'a \<Rightarrow> ('a \<Rightarrow> error + 'b) \<Rightarrow> error + 'b" where
  "bind_err r f = (case r of Inl e \<Rightarrow> Inl e | Inr x \<Rightarrow> f x)"

definition string_field :: "string \<Rightarrow> (string \<times> json) list \<Rightarrow> error + string" where
  "string_field k kvs =
     (case object_member k kvs of
        None \<Rightarrow> Inr []
      | Some JNull \<Rightarrow> Inr []
      | Some (JString v) \<Rightarrow> Inr v
      | Some _ \<Rightarrow> Inl (ErrJSONType k))"

definition zero_time :: Time where
  "zero_time = ''0001-01-01T00:00:00Z''"

definition time_field :: "string \<Rightarrow> (string \<times> json) list \<Rightarrow> error + Time" where
  "time_field k kvs =
     (case object_member k kvs of
        None \<Rightarrow> Inr zero_time
      | Some JNull \<Rightarrow> Inr zero_time
      | Some (JString v) \<Rightarrow> Inr v
      | Some _ \<Rightarrow> Inl (ErrJSONType k))"

definition time_ptr_field :: "string \<Rightarrow> (string \<times> json) list \<Rightarrow> error + Time option" where
  "time_ptr_field k kvs =
     (case object_member k kvs of
        None \<Rightarrow> Inr None
      | Some JNull \<Rightarrow> Inr None
      | Some (JString v) \<Rightarrow> Inr (Some v)
      | Some _ \<Rightarrow> Inl (ErrJSONType k))"

definition int_field :: "string \<Rightarrow> (string \<times> json) list \<Rightarrow> error + 64 word" where
  "int_field k kvs =
     (case object_member k kvs of
        None \<Rightarrow> Inr 0
      | Some JNull \<Rightarrow> Inr 0
      | Some (JNumber n) \<Rightarrow>
          if - (2 ^ 63) \<le> n \<and> n < 2 ^ 63 then Inr (word_of_int n) else Inl (ErrJSONType k)
      | Some _ \<Rightarrow> Inl (ErrJSONType k))"

definition agent_of_json :: "string \<Rightarrow> json \<Rightarrow> error + Agent" where
  "agent_of_json key j =
     (case j of
        JObject kvs \<Rightarrow>
          bind_err (string_field ''id'' kvs) (\<lambda>v1.
          bind_err (string_field ''branch'' kvs) (\<lambda>v2.
          bind_err (string_field ''worktree'' kvs) (\<lambda>v3.
          bind_err (string_field ''task'' kvs) (\<lambda>v4.
          bind_err (string_field ''status'' kvs) (\<lambda>v5.
          bind_err (string_field ''baseBranch'' kvs) (\<lambda>v6.
          bind_err (string_field ''baseCommit'' kvs) (\<lambda>v7.
          bind_err (time_field ''createdAt'' kvs) (\<lambda>v8.
          bind_err (time_ptr_field ''mergedAt'' kvs) (\<lambda>v9.
            Inr \<lparr>ID = v1, Branch = v2, Worktree = v3, Task = v4, Status = v5,
                 BaseBranch = v6, BaseCommit = v7, CreatedAt = v8, MergedAt = v9\<rparr>)))))))))
      | JNull \<Rightarrow> Inl (ErrNilAgent key)
      | _ \<Rightarrow> Inl (ErrJSONType ''agents''))"

definition merge_record_of_json :: "json \<Rightarrow> error + MergeRecord" where
  "merge_record_of_json j =
     (case j of
        JObject kvs \<Rightarrow>
          bind_err (string_field ''agentId'' kvs) (\<lambda>v1.
          bind_err (time_field ''mergedAt'' kvs) (\<lambda>v2.
          bind_err (string_field ''mergeCommit'' kvs) (\<lambda>v3.
          bind_err (int_field ''conflictsResolved'' kvs) (\<lambda>v4.
          bind_err (int_field ''conflictsEscalated'' kvs) (\<lambda>v5.
            Inr \<lparr>AgentID = v1, MergedAt_rec = v2, MergeCommit = v3,
                 ConflictsResolved = v4, ConflictsEscalated = v5\<rparr>)))))
      | JNull \<Rightarrow> Inr \<lparr>AgentID = [], MergedAt_rec = zero_time, MergeCommit = [],
                       ConflictsResolved = 0, ConflictsEscalated = 0\<rparr>
      | _ \<Rightarrow> Inl (ErrJSONType ''mergeHistory''))"

fun agents_of_members :: "(string, Agent) fmap \<Rightarrow> (string \<times> json) list \<Rightarrow> error + (string, Agent) fmap" where
  "agents_of_members m [] = Inr m"
| "agents_of_members m ((k, j) # kvs) =
     bind_err (agent_of_json k j) (\<lambda>a. agents_of_members (fmupd k a m) kvs)"

fun records_of_elems :: "json list \<Rightarrow> error + MergeRecord list" where
  "records_of_elems [] = Inr []"
| "records_of_elems (j # js) =
     bind_err (merge_record_of_json j) (\<lambda>r.
     bind_err (records_of_elems js) (\<lambda>rs. Inr (r # rs)))"

definition agents_field :: "(string \<times> json) list \<Rightarrow> error + (string, Agent) fmap option" where
  "agents_field kvs =
     (case object_member ''agents'' kvs of
        None \<Rightarrow> Inr None
      | Some JNull \<Rightarrow> Inr None
      | Some (JObject ms) \<Rightarrow> bind_err (agents_of_members fmempty ms) (\<lambda>m. Inr (Some m))
      | Some _ \<Rightarrow> Inl (ErrJSONType ''agents''))"

definition history_field :: "(string \<times> json) list \<Rightarrow> error + MergeRecord list" where
  "history_field kvs =
     (case object_member ''mergeHistory'' kvs of
        None \<Rightarrow> Inr []
      | Some JNull \<Rightarrow> Inr []
      | Some (JArray js) \<Rightarrow> records_of_elems js
      | Some _ \<Rightarrow> Inl (ErrJSONType ''mergeHistory''))"

text \<open>
  The decoded \<open>State\<close>, together with the flag \<^verbatim>\<open>state.Agents == nil\<close> that
  \<open>LoadState\<close> tests: the map is nil when the member is absent or \<^verbatim>\<open>null\<close>.
\<close>

definition state_of_json :: "json \<Rightarrow> error + (State \<times> bool)" where
  "state_of_json j =
     (case j of
        JObject kvs \<Rightarrow>
          bind_err (string_field ''version'' kvs) (\<lambda>v1.
          bind_err (string_field ''repoRoot'' kvs) (\<lambda>v2.
          bind_err (string_field ''worktreeDir'' kvs) (\<lambda>v3.
          bind_err (agents_field kvs) (\<lambda>v4.
          bind_err (history_field kvs) (\<lambda>v5.
            Inr (\<lparr>Version = v1, RepoRoot = v2, WorktreeDir = v3,
                  Agents = (case v4 of None \<Rightarrow> fmempty | Some m \<Rightarrow> m),
                  MergeHistory = v5\<rparr>, v4 = None))))))
      | JNull \<Rightarrow> Inr (\<lparr>Version = [], RepoRoot = [], WorktreeDir = [],
                        Agents = fmempty, MergeHistory = []\<rparr>, True)
      | _ \<Rightarrow> Inl (ErrJSONType ''State''))"


subsection \<open>The text of a document\<close>

text \<open>
  How \<^verbatim>\<open>encoding/json\<close> prints a document tree as bytes and parses bytes into a tree
  is library code. It is a parameter of the model: a printer and a parser.
\<close>

record json_text =
  print_json :: "json \<Rightarrow> string"
  parse_json :: "string \<Rightarrow> json option"

definition MarshalIndent :: "json_text \<Rightarrow> State \<Rightarrow> error + string" where
  "MarshalIndent txt s = Inr (print_json txt (state_json s))"

definition Unmarshal :: "json_text \<Rightarrow> string \<Rightarrow> error + (State \<times> bool)" where
  "Unmarshal txt data =
     (case parse_json txt data of
        None \<Rightarrow> Inl ErrJSONSyntax
      | Some j \<Rightarrow> state_of_json j)"

subsection \<open>Files\<close>

text \<open>
  The part of the file system that the state store touches: the directories that exist and
  the contents of the files. Whether a call of package os fails is decided outside the
  program; the \<open>fault\<close> argument says which call fails, if any.
  \<^verbatim>\<open>os.WriteFile\<close> opens the file with \<^verbatim>\<open>O_TRUNC\<close>, writes and closes: when
  opening fails the file is untouched, when writing fails after \<open>k\<close> bytes the file holds
  those \<open>k\<close> bytes, when closing fails the data is written and an error returned.
  \<^verbatim>\<open>os.MkdirAll\<close> also creates missing parents, which the model does not list.
\<close>

record FS =
  dirs :: "string set"
  files :: "string \<rightharpoonup> string"

datatype fault = NoFault | MkdirFails | OpenFails | WriteFailsAfter nat | CloseFails

definition os_MkdirAll :: "fault \<Rightarrow> FS \<Rightarrow> string \<Rightarrow> FS \<times> error option" where
  "os_MkdirAll ft fs dir =
     (if ft = MkdirFails then (fs, Some (ErrOS ''mkdir''))
      else (fs\<lparr>dirs := insert dir (dirs fs)\<rparr>, None))"

definition os_WriteFile :: "fault \<Rightarrow> FS \<Rightarrow> string \<Rightarrow> string \<Rightarrow> FS \<times> error option" where
  "os_WriteFile ft fs name data =
     (case ft of
        OpenFails \<Rightarrow> (fs, Some (ErrOS ''open''))
      | WriteFailsAfter k \<Rightarrow>
          (fs\<lparr>files := (files fs)(name \<mapsto> take k data)\<rparr>, Some (ErrOS ''write''))
      | CloseFails \<Rightarrow>
          (fs\<lparr>files := (files fs)(name \<mapsto> data)\<rparr>, Some (ErrOS ''close''))
      | _ \<Rightarrow> (fs\<lparr>files := (files fs)(name \<mapsto> data)\<rparr>, None))"

definition os_ReadFile :: "bool \<Rightarrow> FS \<Rightarrow> string \<Rightarrow> error + string" where
  "os_ReadFile read_fails fs name =
     (case files fs name of
        None \<Rightarrow> Inl (ErrNotExist name)
      | Some data \<Rightarrow> if read_fails then Inl (ErrOS ''read'') else Inr data)"

definition os_IsNotExist :: "error \<Rightarrow> bool" where
  "os_IsNotExist e = (case e of ErrNotExist _ \<Rightarrow> True | _ \<Rightarrow> False)"

text \<open>\<open>LoadState\<close> and \<open>State.Save\<close>, statement by statement.\<close>

definition LoadState :: "json_text \<Rightarrow> bool \<Rightarrow> FS \<Rightarrow> string \<Rightarrow> error + State" where
  "LoadState txt read_fails fs repoRoot =
     (let stateFile = StateFilePath repoRoot in
      case os_ReadFile read_fails fs stateFile of
        Inl err \<Rightarrow> if os_IsNotExist err then Inr (NewState repoRoot) else Inl err
      | Inr data \<Rightarrow>
          (case Unmarshal txt data of
             Inl err \<Rightarrow> Inl err
           | Inr (state, agents_nil) \<Rightarrow>
               Inr (if agents_nil then state\<lparr>Agents := fmempty\<rparr> else state)))"

definition Save :: "json_text \<Rightarrow> fault \<Rightarrow> FS \<Rightarrow> State \<Rightarrow> FS \<times> error option" where
  "Save txt ft fs s =
     (let stateFile = StateFilePath (RepoRoot s) in
      case os_MkdirAll ft fs (Dir stateFile) of
        (fs1, Some err) \<Rightarrow> (fs1, Some err)
      | (fs1, None) \<Rightarrow>
          (case MarshalIndent txt s of
             Inl err \<Rightarrow> (fs1, Some err)
           | Inr data \<Rightarrow> os_WriteFile ft fs1 stateFile data))"

definition AddAgent :: "State \<Rightarrow> Agent \<Rightarrow> State" where
  "AddAgent s agent = s\<lparr>Agents := fmupd (ID agent) agent (Agents s)\<rparr>"

definition GetAgent :: "State \<Rightarrow> string \<Rightarrow> Agent option" where
  "GetAgent s aid = fmlookup (Agents s) aid"

definition RemoveAgent :: "State \<Rightarrow> string \<Rightarrow> State" where
  "RemoveAgent s aid = s\<lparr>Agents := fmdrop aid (Agents s)\<rparr>"

subsection \<open>A concrete text layer\<close>

text \<open>
  A printer of compact JSON text and a parser for it, to run the model on examples. The
  theorems about the program hold for every text layer; this one instantiates them.
\<close>

definition digit_char :: "nat \<Rightarrow> char" where
  "digit_char d = char_of (48 + d)"

function digits :: "nat \<Rightarrow> string" where
  "digits n = (if n < 10 then [digit_char n] else digits (n div 10) @ [digit_char (n mod 10)])"
  by pat_completeness auto
termination
  by (relation "measure id") auto

definition show_int :: "int \<Rightarrow> string" where
  "show_int i = (if i < 0 then CHR ''-'' # digits (nat (- i)) else digits (nat i))"

definition quote :: "string \<Rightarrow> string" where
  "quote s =
     [CHR 0x22] @
     concat (map (\<lambda>c. if c = CHR 0x22 \<or> c = CHR 0x5C then [CHR 0x5C, c] else [c]) s) @
     [CHR 0x22]"

fun commas :: "string list \<Rightarrow> string" where
  "commas [] = []"
| "commas [x] = x"
| "commas (x # xs) = x @ '','' @ commas xs"

fun compact :: "json \<Rightarrow> string" where
  "compact JNull = ''null''"
| "compact (JBool b) = (if b then ''true'' else ''false'')"
| "compact (JNumber i) = show_int i"
| "compact (JString s) = quote s"
| "compact (JArray js) = ''['' @ commas (map compact js) @ '']''"
| "compact (JObject kvs) =
     ''{'' @ commas (map (\<lambda>kv. quote (fst kv) @ '':'' @ compact (snd kv)) kvs) @ ''}''"

fun scan_string :: "string \<Rightarrow> (string \<times> string) option" where
  "scan_string [] = None"
| "scan_string [c] = (if c = CHR 0x22 then Some ([], []) else None)"
| "scan_string (c # d # r) =
     (if c = CHR 0x22 then Some ([], d # r)
      else if c = CHR 0x5C then map_option (\<lambda>(s, r'). (d # s, r')) (scan_string r)
      else map_option (\<lambda>(s, r'). (c # s, r')) (scan_string (d # r)))"

definition is_digit :: "char \<Rightarrow> bool" where
  "is_digit c \<longleftrightarrow> 48 \<le> (of_char c :: nat) \<and> (of_char c :: nat) \<le> 57"

definition read_nat :: "string \<Rightarrow> nat" where
  "read_nat s = foldl (\<lambda>n c. 10 * n + ((of_char c :: nat) - 48)) 0 s"

definition scan_number :: "string \<Rightarrow> (int \<times> string) option" where
  "scan_number s =
     (let neg = (s \<noteq> [] \<and> hd s = CHR ''-'');
          t = (if neg then tl s else s);
          ds = takeWhile is_digit t
      in if ds = [] then None
         else Some ((if neg then - int (read_nat ds) else int (read_nat ds)),
                    dropWhile is_digit t))"

fun scan_value :: "nat \<Rightarrow> string \<Rightarrow> (json \<times> string) option"
  and scan_elems :: "nat \<Rightarrow> string \<Rightarrow> (json list \<times> string) option"
  and scan_members :: "nat \<Rightarrow> string \<Rightarrow> ((string \<times> json) list \<times> string) option" where
  "scan_value 0 s = None"
| "scan_value (Suc n) s =
     (if take 4 s = ''null'' then Some (JNull, drop 4 s)
      else if take 4 s = ''true'' then Some (JBool True, drop 4 s)
      else if take 5 s = ''false'' then Some (JBool False, drop 5 s)
      else if take 1 s = [CHR 0x22] then
        map_option (\<lambda>(v, r). (JString v, r)) (scan_string (drop 1 s))
      else if take 2 s = ''[]'' then Some (JArray [], drop 2 s)
      else if take 1 s = ''['' then
        map_option (\<lambda>(vs, r). (JArray vs, r)) (scan_elems n (drop 1 s))
      else if take 2 s = ''{}'' then Some (JObject [], drop 2 s)
      else if take 1 s = ''{'' then
        map_option (\<lambda>(kvs, r). (JObject kvs, r)) (scan_members n (drop 1 s))
      else map_option (\<lambda>(i, r). (JNumber i, r)) (scan_number s))"
| "scan_elems 0 s = None"
| "scan_elems (Suc n) s =
     (case scan_value n s of
        None \<Rightarrow> None
      | Some (v, r) \<Rightarrow>
          if take 1 r = '']'' then Some ([v], drop 1 r)
          else if take 1 r = '','' then
            map_option (\<lambda>(vs, r'). (v # vs, r')) (scan_elems n (drop 1 r))
          else None)"
| "scan_members 0 s = None"
| "scan_members (Suc n) s =
     (if take 1 s = [CHR 0x22] then
        (case scan_string (drop 1 s) of
           None \<Rightarrow> None
         | Some (k, r) \<Rightarrow>
             if take 1 r = '':'' then
               (case scan_value n (drop 1 r) of
                  None \<Rightarrow> None
                | Some (v, r') \<Rightarrow>
                    if take 1 r' = ''}'' then Some ([(k, v)], drop 1 r')
                    else if take 1 r' = '','' then
                      map_option (\<lambda>(kvs, r''). ((k, v) # kvs, r'')) (scan_members n (drop 1 r'))
                    else None)
             else None)
      else None)"

definition scan_json :: "string \<Rightarrow> json option" where
  "scan_json s =
     (case scan_value (Suc (length s)) s of
        Some (v, []) \<Rightarrow> Some v
      | _ \<Rightarrow> None)"

definition compact_text :: json_text where
  "compact_text = \<lparr>print_json = compact, parse_json = scan_json\<rparr>"



section \<open>Branch lifecycle manager (internal/worktree/manager.go)\<close>

text \<open>
  What the manager takes from outside in one call: the text layer, \<^verbatim>\<open>strings.ToLower\<close>,
  the result of each git command (its combined output and its error), the faults of the
  successive \<open>Save\<close> calls, the clock (\<open>now\<close>, and \<open>today\<close> for the date in the layout
  \<^verbatim>\<open>20060102\<close>) and the two bytes that \<^verbatim>\<open>rand.Read\<close> delivers.

  The \<open>World\<close> is what the manager acts on outside its memory: the disk, and the
  \<open>trace\<close> of the git commands it ran and the \<open>Save\<close> calls it made, with their results,
  in order. Calls are sequential; the mutual exclusion of concurrent callers is outside
  the model.
\<close>

type_synonym byte = "8 word"

record Env =
  text_layer :: json_text
  strings_ToLower :: "string \<Rightarrow> string"
  git_run :: "string list \<Rightarrow> string \<times> error option"
  faults :: "fault list"
  now :: Time
  today :: string
  rand_bytes :: "byte \<times> byte"

datatype event = GitCmd string "string list" | SaveCall State "error option"

record World =
  disk :: FS
  trace :: "event list"

record Manager =
  repoRoot :: string
  state :: State

text \<open>
  \<open>NewManager\<close>: \<^verbatim>\<open>os.Stat\<close> reports that \<^verbatim>\<open>.git\<close> does not exist when it is
  neither a directory nor a file.
\<close>

definition NewManager :: "json_text \<Rightarrow> bool \<Rightarrow> FS \<Rightarrow> string \<Rightarrow> error + Manager" where
  "NewManager txt read_fails fs root =
     (if Join [root, ''.git''] \<notin> dirs fs \<and> files fs (Join [root, ''.git'']) = None
      then Inl (ErrNotGitRepo root)
      else case LoadState txt read_fails fs root of
             Inl err \<Rightarrow> Inl (ErrWrap ''failed to load state'' err)
           | Inr st \<Rightarrow> Inr \<lparr>repoRoot = root, state = st\<lparr>RepoRoot := root\<rparr>\<rparr>)"

definition hex_digit :: "nat \<Rightarrow> char" where
  "hex_digit n = ''0123456789abcdef'' ! (n mod 16)"

definition EncodeToString :: "byte list \<Rightarrow> string" where
  "EncodeToString bs = concat (map (\<lambda>b. [hex_digit (unat b div 16), hex_digit (unat b mod 16)]) bs)"

definition generateID :: "Env \<Rightarrow> string" where
  "generateID env =
     (let timestamp = today env;
          bytes = [fst (rand_bytes env), snd (rand_bytes env)];
          suffix = EncodeToString bytes
      in ''cwt-'' @ timestamp @ ''-'' @ suffix)"

text \<open>\<^verbatim>\<open>strings.TrimSpace\<close>, for the ASCII white space.\<close>

definition is_space :: "char \<Rightarrow> bool" where
  "is_space c \<longleftrightarrow> c \<in> {CHR 0x09, CHR 0x0A, CHR 0x0B, CHR 0x0C, CHR 0x0D, CHR 0x20}"

definition TrimSpace :: "string \<Rightarrow> string" where
  "TrimSpace s = rev (dropWhile is_space (rev (dropWhile is_space s)))"

definition git :: "Env \<Rightarrow> Manager \<Rightarrow> World \<Rightarrow> string list \<Rightarrow> World \<times> string \<times> error option" where
  "git env m w args =
     (w\<lparr>trace := trace w @ [GitCmd (repoRoot m) args]\<rparr>,
      TrimSpace (fst (git_run env args)), snd (git_run env args))"

text \<open>
  \<open>state_Save env i m w\<close> is the \<open>i\<close>-th call \<^verbatim>\<open>m.state.Save()\<close> of an operation,
  recorded in the trace. \<open>assign_agent m aid a\<close> is an assignment to fields of the agent
  that the map holds under \<open>aid\<close>.
\<close>

definition nth_fault :: "fault list \<Rightarrow> nat \<Rightarrow> fault" where
  "nth_fault fts i = (if i < length fts then fts ! i else NoFault)"

definition state_Save :: "Env \<Rightarrow> nat \<Rightarrow> Manager \<Rightarrow> World \<Rightarrow> World \<times> error option" where
  "state_Save env i m w =
     (case Save (text_layer env) (nth_fault (faults env) i) (disk w) (state m) of
        (d, r) \<Rightarrow> (w\<lparr>disk := d, trace := trace w @ [SaveCall (state m) r]\<rparr>, r))"


definition GetCurrentBranch :: "Env \<Rightarrow> Manager \<Rightarrow> World \<Rightarrow> World \<times> string \<times> error option" where
  "GetCurrentBranch env m w = git env m w [''rev-parse'', ''--abbrev-ref'', ''HEAD'']"

definition GetCurrentCommit :: "Env \<Rightarrow> Manager \<Rightarrow> World \<Rightarrow> World \<times> string \<times> error option" where
  "GetCurrentCommit env m w = git env m w [''rev-parse'', ''HEAD'']"

definition CreateWorktree ::
  "Env \<Rightarrow> Manager \<Rightarrow> World \<Rightarrow> string \<Rightarrow> World \<times> Manager \<times> (error + Agent)" where
  "CreateWorktree env m w task =
     (let aid = generateID env;
          slug = slugify (strings_ToLower env) task;
          branch = ''cwt/'' @ aid @ ''/'' @ slug;
          worktreePath = Join [repoRoot m, WorktreeDir (state m), aid]
      in case GetCurrentBranch env m w of
           (w1, _, Some err) \<Rightarrow> (w1, m, Inl (ErrWrap ''failed to get current branch'' err))
         | (w1, baseBranch, None) \<Rightarrow>
        (case GetCurrentCommit env m w1 of
           (w2, _, Some err) \<Rightarrow> (w2, m, Inl (ErrWrap ''failed to get current commit'' err))
         | (w2, baseCommit, None) \<Rightarrow>
        (case git env m w2 [''worktree'', ''add'', ''-b'', branch, worktreePath] of
           (w3, _, Some err) \<Rightarrow> (w3, m, Inl (ErrWrap ''failed to create worktree'' err))
         | (w3, _, None) \<Rightarrow>
            (let agent = \<lparr>ID = aid, Branch = branch, Worktree = worktreePath, Task = task,
                          Status = StatusRunning, BaseBranch = baseBranch,
                          BaseCommit = baseCommit, CreatedAt = now env, MergedAt = None\<rparr>;
                 m1 = m\<lparr>state := AddAgent (state m) agent\<rparr>
             in case state_Save env 0 m1 w3 of
                  (w4, Some err) \<Rightarrow>
                    (let w5 = fst (git env m1 w4 [''worktree'', ''remove'', worktreePath]);
                         w6 = fst (git env m1 w5 [''branch'', ''-D'', branch])
                     in (w6, m1, Inl (ErrWrap ''failed to save state'' err)))
                | (w4, None) \<Rightarrow> (w4, m1, Inr agent)))))"

definition RemoveWorktree ::
  "Env \<Rightarrow> Manager \<Rightarrow> World \<Rightarrow> string \<Rightarrow> World \<times> Manager \<times> error option" where
  "RemoveWorktree env m w aid =
     (case GetAgent (state m) aid of
        None \<Rightarrow> (w, m, Some (ErrAgentNotFound aid))
      | Some agent \<Rightarrow>
          (let w1 = (case git env m w [''worktree'', ''remove'', Worktree agent] of
                       (w', _, Some err) \<Rightarrow>
                         fst (git env m w' [''worktree'', ''remove'', ''--force'', Worktree agent])
                     | (w', _, None) \<Rightarrow> w');
               w2 = (case git env m w1 [''branch'', ''-d'', Branch agent] of
                       (w', _, Some err) \<Rightarrow> fst (git env m w' [''branch'', ''-D'', Branch agent])
                     | (w', _, None) \<Rightarrow> w');
               m1 = m\<lparr>state := RemoveAgent (state m) aid\<rparr>
           in case state_Save env 0 m1 w2 of (w3, r) \<Rightarrow> (w3, m1, r)))"



section \<open>Ring buffer of terminal output (internal/pty/session.go)\<close>

text \<open>
  The fields \<open>size\<close> (here \<open>size_rb\<close>), \<open>start\<close> and \<open>len\<close> are Go \<^verbatim>\<open>int\<close>s that the code keeps
  between 0 and the length of \<open>data\<close>; their sums stay below twice that length, far
  from the 64-bit range, so they are natural numbers here. A division by zero and an
  index outside \<open>data\<close> panic in Go: they are the \<open>Inl\<close> results.
\<close>

datatype panic = DivideByZero | IndexOutOfRange

record RingBuffer =
  data :: "byte list"
  size_rb :: nat
  start :: nat
  len :: nat

definition NewRingBuffer :: "nat \<Rightarrow> RingBuffer" where
  "NewRingBuffer n = \<lparr>data = replicate n 0, size_rb = n, start = 0, len = 0\<rparr>"


definition write_byte :: "RingBuffer \<Rightarrow> byte \<Rightarrow> panic + RingBuffer" where
  "write_byte r b =
     (if size_rb r = 0 then Inl DivideByZero
      else let pos = (start r + len r) mod size_rb r in
        if length (data r) \<le> pos then Inl IndexOutOfRange
        else let r1 = r\<lparr>data := (data r)[pos := b]\<rparr> in
          if len r1 < size_rb r1 then Inr (r1\<lparr>len := len r1 + 1\<rparr>)
          else Inr (r1\<lparr>start := (start r1 + 1) mod size_rb r1\<rparr>))"

fun write_loop :: "RingBuffer \<Rightarrow> byte list \<Rightarrow> panic + RingBuffer" where
  "write_loop r [] = Inr r"
| "write_loop r (b # p) =
     (case write_byte r b of Inl e \<Rightarrow> Inl e | Inr r' \<Rightarrow> write_loop r' p)"

definition Write_rb :: "RingBuffer \<Rightarrow> byte list \<Rightarrow> panic + (RingBuffer \<times> nat \<times> string option)" where
  "Write_rb r p =
     (case write_loop r p of Inl e \<Rightarrow> Inl e | Inr r' \<Rightarrow> Inr (r', length p, None))"

fun read_loop :: "RingBuffer \<Rightarrow> nat list \<Rightarrow> panic + byte list" where
  "read_loop r [] = Inr []"
| "read_loop r (i # is) =
     (if size_rb r = 0 then Inl DivideByZero
      else let pos = (start r + i) mod size_rb r in
        if length (data r) \<le> pos then Inl IndexOutOfRange
        else (case read_loop r is of Inl e \<Rightarrow> Inl e | Inr bs \<Rightarrow> Inr (data r ! pos # bs)))"

definition Bytes :: "RingBuffer \<Rightarrow> panic + byte list" where
  "Bytes r = read_loop r [0..<len r]"

text \<open>A sequence of \<open>Write\<close> calls, collecting what each call returns, and the same
  followed by one call of \<open>Bytes\<close> on a new buffer.\<close>

fun write_all :: "RingBuffer \<Rightarrow> byte list list \<Rightarrow> panic + (RingBuffer \<times> (nat \<times> string option) list)" where
  "write_all r [] = Inr (r, [])"
| "write_all r (p # ps) =
     (case Write_rb r p of Inl e \<Rightarrow> Inl e
      | Inr (r', ret) \<Rightarrow>
          (case write_all r' ps of Inl e \<Rightarrow> Inl e
           | Inr (r'', rets) \<Rightarrow> Inr (r'', ret # rets)))"

definition writes_then_Bytes ::
  "nat \<Rightarrow> byte list list \<Rightarrow> panic + ((nat \<times> string option) list \<times> byte list)" where
  "writes_then_Bytes c ps =
     (case write_all (NewRingBuffer c) ps of Inl e \<Rightarrow> Inl e
      | Inr (r', rets) \<Rightarrow>
          (case Bytes r' of Inl e \<Rightarrow> Inl e | Inr bs \<Rightarrow> Inr (rets, bs)))"

text \<open>The representation invariant of a buffer of capacity \<open>c\<close>, the bytes it holds in
  reading order, and the last \<open>n\<close> elements of a list.\<close>

definition rb_inv :: "nat \<Rightarrow> RingBuffer \<Rightarrow> bool" where
  "rb_inv c r \<longleftrightarrow> 0 < c \<and> size_rb r = c \<and> length (data r) = c \<and> start r < c \<and> len r \<le> c"

definition rb_contents :: "RingBuffer \<Rightarrow> byte list" where
  "rb_contents r = map (\<lambda>i. data r ! ((start r + i) mod size_rb r)) [0..<len r]"

definition last_n :: "nat \<Rightarrow> 'a list \<Rightarrow> 'a list" where
  "last_n n xs = drop (length xs - min (length xs) n) xs"

section \<open>Terminal sessions and the session registry (package pty)\<close>

text \<open>
  A session holds a pseudo-terminal file and a command, both nil until \<open>Start\<close>
  succeeds (\<open>cmd.Process\<close> is nil until the command is started). The operating system
  side is the set of open files and the set of running processes. Closing a file that is
  closed and killing a process that is gone return errors, which \<open>Stop\<close> discards.
  Whether the pseudo-terminal can be started is decided outside the program: \<open>pty_start\<close>
  gives the file and the process, or the error. The background reader, the virtual
  terminal and the locks are outside the model; calls are sequential. \<open>Stop\<close> has the same
  statements in both versions of the session (the field is called \<open>pty\<close> in one and
  \<open>ptmx\<close> in the other).
\<close>

datatype Cmd = Cmd (Process: "nat option")

record Session =
  ID_sess :: string
  Workdir :: string
  Task_sess :: string
  ptmx :: "nat option"
  cmd :: "Cmd option"
  has_term :: bool
  rows :: int
  cols :: int

record OS =
  open_files :: "nat set"
  running :: "nat set"

record PtyManager =
  sessions :: "(string, Session) fmap"

definition NewSession :: "string \<Rightarrow> string \<Rightarrow> string \<Rightarrow> Session" where
  "NewSession sid workdir task =
     \<lparr>ID_sess = sid, Workdir = workdir, Task_sess = task, ptmx = None, cmd = None,
      has_term = False, rows = 24, cols = 80\<rparr>"

definition file_Close :: "OS \<Rightarrow> nat \<Rightarrow> OS \<times> error option" where
  "file_Close os fd =
     (if fd \<in> open_files os then (os\<lparr>open_files := open_files os - {fd}\<rparr>, None)
      else (os, Some ErrClosed))"

definition process_Kill :: "OS \<Rightarrow> nat \<Rightarrow> OS \<times> error option" where
  "process_Kill os pid =
     (if pid \<in> running os then (os\<lparr>running := running os - {pid}\<rparr>, None)
      else (os, Some ErrProcessDone))"


definition Stop :: "OS \<Rightarrow> Session \<Rightarrow> OS \<times> error option" where
  "Stop os s =
     (let os1 = (case ptmx s of Some fd \<Rightarrow> fst (file_Close os fd) | None \<Rightarrow> os);
          os2 = (case cmd s of
                   Some c \<Rightarrow> (case Process c of Some pid \<Rightarrow> fst (process_Kill os1 pid)
                                                | None \<Rightarrow> os1)
                 | None \<Rightarrow> os1)
      in (os2, None))"



section \<open>The status order of the specification\<close>



section \<open>Example values\<close>

text \<open>Concrete states, environments and registries on which the model is run.\<close>

definition example_agent :: Agent where
  "example_agent =
     \<lparr>ID = ''cwt-20250104-a1b2'', Branch = ''cwt/cwt-20250104-a1b2/fix-login'',
      Worktree = ''/repo/.worktrees/cwt-20250104-a1b2'', Task = ''Fix login'',
      Status = StatusRunning, BaseBranch = ''main'', BaseCommit = ''abc123'',
      CreatedAt = ''2025-01-04T10:00:00Z'', MergedAt = None\<rparr>"

definition example_state :: State where
  "example_state =
     (NewState ''/repo'')
       \<lparr>Agents := fmupd ''cwt-20250104-a1b2'' example_agent
                    (fmupd ''cwt-20250103-00ff''
                       (example_agent\<lparr>ID := ''cwt-20250103-00ff'', Status := StatusMerged,
                          MergedAt := Some ''2025-01-03T12:30:00Z''\<rparr>) fmempty),
        MergeHistory := [\<lparr>AgentID = ''cwt-20250103-00ff'',
           MergedAt_rec = ''2025-01-03T12:30:00Z'', MergeCommit = ''c0ffee'',
           ConflictsResolved = 2, ConflictsEscalated = 0\<rparr>]\<rparr>"

definition example_env :: Env where
  "example_env =
     \<lparr>text_layer = compact_text, strings_ToLower = ascii_ToLower,
      git_run = (\<lambda>args. if args = [''rev-parse'', ''--abbrev-ref'', ''HEAD''] then (''main'', None)
                        else if args = [''rev-parse'', ''HEAD''] then (''abc123'', None)
                        else ([], None)),
      faults = [], now = ''2025-01-04T10:00:00Z'', today = ''20250104'',
      rand_bytes = (0xa1, 0xb2)\<rparr>"

definition failing_git_env :: Env where
  "failing_git_env = example_env\<lparr>git_run := (\<lambda>args. (''fatal'', Some (ErrExec ''exit status 128'')))\<rparr>"

definition example_manager :: Manager where
  "example_manager = \<lparr>repoRoot = ''/repo'', state = NewState ''/repo''\<rparr>"

definition example_world :: World where
  "example_world = \<lparr>disk = \<lparr>dirs = {}, files = Map.empty\<rparr>, trace = []\<rparr>"

definition tracked_manager :: Manager where
  "tracked_manager = \<lparr>repoRoot = ''/repo'', state = example_state\<rparr>"

definition example_disk :: FS where
  "example_disk =
     \<lparr>dirs = {''/repo/.cwt''},
      files = [StateFilePath ''/repo'' \<mapsto> compact (state_json (NewState ''/repo''))]\<rparr>"

definition example_os :: OS where
  "example_os = \<lparr>open_files = {3}, running = {100}\<rparr>"


definition example_registry :: PtyManager where
  "example_registry =
     \<lparr>sessions = fmupd ''main''
        ((NewSession ''main'' ''/repo'' ''main'')
           \<lparr>ptmx := Some 3, cmd := Some (Cmd (Some 100)), has_term := True\<rparr>) fmempty\<rparr>"

section \<open>Properties of slugify\<close>






lemma no_adj_Cons:
  "no_adjacent_dash (x # s) \<longleftrightarrow> (x \<noteq> dash \<or> \<not> starts_with_dash s) \<and> no_adjacent_dash s"
  by (cases s) (auto simp add: starts_with_dash_def)





lemma no_adj_take: "no_adjacent_dash s \<Longrightarrow> no_adjacent_dash (take n s)"
proof (induction s arbitrary: n)
  case Nil
  then show ?case by simp
next
  case (Cons x s)
  show ?case
  proof (cases n)
    case 0
    then show ?thesis by simp
  next
    case (Suc m)
    have "starts_with_dash (take m s) \<Longrightarrow> starts_with_dash s"
      by (cases s; cases m) (simp_all add: starts_with_dash_def)
    then show ?thesis using Cons Suc by (auto simp add: no_adj_Cons)
  qed
qed
















lemma slugify_empty: "ToLower [] = [] \<Longrightarrow> slugify ToLower [] = []"
  by (simp add: slugify_def slug_untruncated_def Trim_def)

section \<open>Properties of the state store and the manager\<close>

subsection \<open>Auxiliary facts\<close>

lemma object_member_Cons:
  "object_member k (kv # kvs) = (case object_member k kvs of Some v \<Rightarrow> Some v | None \<Rightarrow> if fst kv = k then Some (snd kv) else None)"
  by (cases kv) (auto simp add: object_member_def map_add_def split: option.splits)

lemma object_member_Nil: "object_member k [] = None"
  by (simp add: object_member_def)


lemma int_roundtrip:
  "int_field k [(k, JNumber (sint (w :: 64 word)))] = Inr w"
proof -
  have "- (2 ^ 63) \<le> sint w" using sint_ge[of w] by simp
  moreover have "sint w < 2 ^ 63" using sint_lt[of w] by simp
  ultimately show ?thesis by (simp add: int_field_def object_member_Cons object_member_Nil)
qed










lemma Save_cases:
  "Save txt ft fs s =
     (let stateFile = StateFilePath (RepoRoot s);
          text = print_json txt (state_json s);
          fs1 = fs\<lparr>dirs := insert (Dir stateFile) (dirs fs)\<rparr>
      in case ft of
           MkdirFails \<Rightarrow> (fs, Some (ErrOS ''mkdir''))
         | OpenFails \<Rightarrow> (fs1, Some (ErrOS ''open''))
         | WriteFailsAfter k \<Rightarrow>
             (fs1\<lparr>files := (files fs)(stateFile \<mapsto> take k text)\<rparr>, Some (ErrOS ''write''))
         | CloseFails \<Rightarrow> (fs1\<lparr>files := (files fs)(stateFile \<mapsto> text)\<rparr>, Some (ErrOS ''close''))
         | NoFault \<Rightarrow> (fs1\<lparr>files := (files fs)(stateFile \<mapsto> text)\<rparr>, None))"
  by (cases ft) (simp_all add: Save_def os_MkdirAll_def os_WriteFile_def MarshalIndent_def Let_def)



lemma state_Save_trace:
  "trace (fst (state_Save env i m w)) = trace w @ [SaveCall (state m) (snd (state_Save env i m w))]"
  by (simp add: state_Save_def split: prod.splits)

lemma state_Save_result:
  "snd (state_Save env i m w) =
     snd (Save (text_layer env) (nth_fault (faults env) i) (disk w) (state m))"
  by (simp add: state_Save_def split: prod.splits)

lemma state_Save_disk:
  "disk (fst (state_Save env i m w)) =
     fst (Save (text_layer env) (nth_fault (faults env) i) (disk w) (state m))"
  by (simp add: state_Save_def split: prod.splits)







lemma git_disk: "disk (fst (git env m w args)) = disk w"
  by (simp add: git_def)

lemma RemoveWorktree_found:
  assumes "GetAgent (state m) aid = Some a"
  shows "RemoveWorktree env m w aid =
     (let evs =
            [GitCmd (repoRoot m) [''worktree'', ''remove'', Worktree a]] @
            (if snd (git_run env [''worktree'', ''remove'', Worktree a]) = None then []
             else [GitCmd (repoRoot m) [''worktree'', ''remove'', ''--force'', Worktree a]]) @
            [GitCmd (repoRoot m) [''branch'', ''-d'', Branch a]] @
            (if snd (git_run env [''branch'', ''-d'', Branch a]) = None then []
             else [GitCmd (repoRoot m) [''branch'', ''-D'', Branch a]]);
          w2 = w\<lparr>trace := trace w @ evs\<rparr>;
          m1 = m\<lparr>state := RemoveAgent (state m) aid\<rparr>
      in (fst (state_Save env 0 m1 w2), m1, snd (state_Save env 0 m1 w2)))"
  using assms
  by (auto simp add: RemoveWorktree_def Let_def git_def split: prod.splits option.splits)

lemma RemoveWorktree_found_ex:
  assumes "GetAgent (state m) aid = Some a"
  shows "\<exists>w2. disk w2 = disk w \<and>
           RemoveWorktree env m w aid =
             (fst (state_Save env 0 (m\<lparr>state := RemoveAgent (state m) aid\<rparr>) w2),
              m\<lparr>state := RemoveAgent (state m) aid\<rparr>,
              snd (state_Save env 0 (m\<lparr>state := RemoveAgent (state m) aid\<rparr>) w2))"
proof -
  let ?evs = "[GitCmd (repoRoot m) [''worktree'', ''remove'', Worktree a]] @
            (if snd (git_run env [''worktree'', ''remove'', Worktree a]) = None then []
             else [GitCmd (repoRoot m) [''worktree'', ''remove'', ''--force'', Worktree a]]) @
            [GitCmd (repoRoot m) [''branch'', ''-d'', Branch a]] @
            (if snd (git_run env [''branch'', ''-d'', Branch a]) = None then []
             else [GitCmd (repoRoot m) [''branch'', ''-D'', Branch a]])"
  show ?thesis
    by (rule exI[of _ "w\<lparr>trace := trace w @ ?evs\<rparr>"])
       (simp add: RemoveWorktree_found[OF assms] Let_def)
qed

lemma RemoveAgent_lookup: "GetAgent (RemoveAgent s aid) aid = None"
  by (simp add: RemoveAgent_def GetAgent_def)

lemma RemoveWorktree_missing:
  "GetAgent (state m) aid = None \<Longrightarrow>
     RemoveWorktree env m w aid = (w, m, Some (ErrAgentNotFound aid))"
  by (simp add: RemoveWorktree_def)

lemma generateID_inputs:
  "today env = today env' \<Longrightarrow> rand_bytes env = rand_bytes env' \<Longrightarrow>
     generateID env = generateID env'"
  by (simp add: generateID_def)

subsection \<open>The state file\<close>



text \<open>
  Claim C1, as the code has it. \<open>Save\<close> creates the containing directory and writes the
  whole serialized state over the file, in place. Without a fault it returns no error and
  the file holds exactly the new text; with a fault it returns an error. When creating
  the directory or opening the file fails, the files are as before; when the write fails
  after \<open>k\<close> bytes, the file holds the first \<open>k\<close> bytes of the new text: there is no
  temporary file and no rename.
\<close>

theorem save_outcomes:
  "(ft = NoFault \<longrightarrow>
      Save txt ft fs s =
        (fs\<lparr>dirs := insert (Dir (StateFilePath (RepoRoot s))) (dirs fs),
            files := (files fs)(StateFilePath (RepoRoot s) \<mapsto> print_json txt (state_json s))\<rparr>,
         None)) \<and>
   (ft \<noteq> NoFault \<longrightarrow> snd (Save txt ft fs s) \<noteq> None) \<and>
   (ft = MkdirFails \<or> ft = OpenFails \<longrightarrow> files (fst (Save txt ft fs s)) = files fs) \<and>
   (ft = WriteFailsAfter k \<longrightarrow>
      files (fst (Save txt ft fs s)) =
        (files fs)(StateFilePath (RepoRoot s) \<mapsto> take k (print_json txt (state_json s))))"
  by (cases ft) (auto simp add: Save_cases Let_def)

text \<open>
  An instance: a save without fault, one whose open fails and one whose write fails.
\<close>

theorem save_outcomes_witness:
  "Save compact_text NoFault example_disk example_state =
     (example_disk\<lparr>dirs := insert (Dir (StateFilePath (RepoRoot example_state))) (dirs example_disk),
        files := (files example_disk)(StateFilePath (RepoRoot example_state) \<mapsto>
                   print_json compact_text (state_json example_state))\<rparr>, None) \<and>
   snd (Save compact_text OpenFails example_disk example_state) \<noteq> None \<and>
   files (fst (Save compact_text OpenFails example_disk example_state)) = files example_disk \<and>
   files (fst (Save compact_text (WriteFailsAfter 10) example_disk example_state)) =
     (files example_disk)(StateFilePath (RepoRoot example_state) \<mapsto>
        take 10 (print_json compact_text (state_json example_state)))"
  using save_outcomes[of NoFault compact_text example_disk example_state 10]
        save_outcomes[of OpenFails compact_text example_disk example_state 10]
        save_outcomes[of "WriteFailsAfter 10" compact_text example_disk example_state 10]
  by simp

text \<open>
  The claim as stated, that after a failed save the file still holds the previous complete
  state, fails: the file held a state that loads, the write of a new state fails after 10
  bytes, and then the file holds those 10 bytes, differs from what it held, and no longer
  loads.
\<close>

theorem save_failure_overwrites_counterexample:
  "LoadState compact_text False example_disk ''/repo'' = Inr (NewState ''/repo'') \<and>
   snd (Save compact_text (WriteFailsAfter 10) example_disk example_state) = Some (ErrOS ''write'') \<and>
   files (fst (Save compact_text (WriteFailsAfter 10) example_disk example_state))
       (StateFilePath ''/repo'') = Some [CHR ''{'', CHR 0x22, CHR ''v'', CHR ''e'', CHR ''r'', CHR ''s'', CHR ''i'', CHR ''o'', CHR ''n'', CHR 0x22] \<and>
   files (fst (Save compact_text (WriteFailsAfter 10) example_disk example_state))
       (StateFilePath ''/repo'') \<noteq> files example_disk (StateFilePath ''/repo'') \<and>
   LoadState compact_text False
       (fst (Save compact_text (WriteFailsAfter 10) example_disk example_state)) ''/repo'' =
     Inl ErrJSONSyntax"
  by code_simp

subsection \<open>Merge and the agent status\<close>







subsection \<open>Removing and creating agents\<close>

text \<open>
  Claim C6. For a tracked agent and whatever the git commands return, \<open>RemoveWorktree\<close>
  removes the agent from the tracked state and calls \<open>Save\<close> on the state without it,
  returning that call's result: with no fault of the disk the state file then holds the
  state without the agent. A second call with the same identifier, under any environment,
  returns the not-found error and changes nothing.
\<close>

theorem remove_twice:
  assumes "GetAgent (state m) aid = Some a"
  shows
    "let res = RemoveWorktree env m w aid;
         w' = fst res; m' = fst (snd res); r = snd (snd res);
         saved = Save (text_layer env) (nth_fault (faults env) 0) (disk w) (state m')
     in state m' = RemoveAgent (state m) aid \<and>
        GetAgent (state m') aid = None \<and>
        disk w' = fst saved \<and> r = snd saved \<and>
        last (trace w') = SaveCall (state m') r \<and>
        (if nth_fault (faults env) 0 = NoFault
         then r = None \<and>
              files (disk w') (StateFilePath (RepoRoot (state m'))) =
                Some (print_json (text_layer env) (state_json (state m')))
         else r \<noteq> None) \<and>
        RemoveWorktree env2 m' w' aid = (w', m', Some (ErrAgentNotFound aid))"
proof -
  let ?m1 = "m\<lparr>state := RemoveAgent (state m) aid\<rparr>"
  from RemoveWorktree_found_ex[OF assms, of w env] obtain w2 where
    w2: "disk w2 = disk w"
        "RemoveWorktree env m w aid =
           (fst (state_Save env 0 ?m1 w2), ?m1, snd (state_Save env 0 ?m1 w2))"
    by blast
  have l: "GetAgent (state ?m1) aid = None" by (simp add: RemoveAgent_lookup)
  have f: "nth_fault (faults env) 0 = NoFault \<Longrightarrow>
             snd (Save (text_layer env) NoFault (disk w) (RemoveAgent (state m) aid)) = None \<and>
             files (fst (Save (text_layer env) NoFault (disk w) (RemoveAgent (state m) aid)))
               (StateFilePath (RepoRoot (RemoveAgent (state m) aid))) =
               Some (print_json (text_layer env) (state_json (RemoveAgent (state m) aid)))"
    by (simp add: Save_cases Let_def)
  have g: "nth_fault (faults env) 0 \<noteq> NoFault \<Longrightarrow>
             snd (Save (text_layer env) (nth_fault (faults env) 0) (disk w)
                    (RemoveAgent (state m) aid)) \<noteq> None"
    by (cases "nth_fault (faults env) 0") (simp_all add: Save_cases Let_def)
  show ?thesis
    using w2 l f g RemoveWorktree_missing[OF l, of env2]
    by (simp add: Let_def state_Save_trace state_Save_result state_Save_disk)
qed

text \<open>
  An instance in which every git command fails.
\<close>

theorem remove_twice_witness:
  "GetAgent (state tracked_manager) ''cwt-20250104-a1b2'' = Some example_agent \<and>
   GetAgent (state (fst (snd (RemoveWorktree failing_git_env tracked_manager example_world
      ''cwt-20250104-a1b2'')))) ''cwt-20250104-a1b2'' = None \<and>
   snd (snd (RemoveWorktree failing_git_env tracked_manager example_world ''cwt-20250104-a1b2'')) = None \<and>
   snd (snd (RemoveWorktree failing_git_env
      (fst (snd (RemoveWorktree failing_git_env tracked_manager example_world ''cwt-20250104-a1b2'')))
      (fst (RemoveWorktree failing_git_env tracked_manager example_world ''cwt-20250104-a1b2''))
      ''cwt-20250104-a1b2'')) = Some (ErrAgentNotFound ''cwt-20250104-a1b2'')"
proof -
  have h1: "GetAgent (state tracked_manager) ''cwt-20250104-a1b2'' = Some example_agent"
    by (simp add: tracked_manager_def example_state_def GetAgent_def)
  let ?res = "RemoveWorktree failing_git_env tracked_manager example_world ''cwt-20250104-a1b2''"
  note t = remove_twice[OF h1, of failing_git_env example_world failing_git_env,
               unfolded Let_def]
  have a: "GetAgent (state (fst (snd ?res))) ''cwt-20250104-a1b2'' = None"
    using t by blast
  have b: "snd (snd ?res) = None"
    by code_simp
  have c: "RemoveWorktree failing_git_env (fst (snd ?res)) (fst ?res) ''cwt-20250104-a1b2'' =
           (fst ?res, fst (snd ?res), Some (ErrAgentNotFound ''cwt-20250104-a1b2''))"
    using t by blast
  have "snd (snd (RemoveWorktree failing_git_env (fst (snd ?res)) (fst ?res)
          ''cwt-20250104-a1b2'')) = Some (ErrAgentNotFound ''cwt-20250104-a1b2'')"
    by (simp only: c snd_conv)
  then show ?thesis using h1 a b by blast
qed

text \<open>
  Claim C2, at a failing input. Two creations on the same day for which \<^verbatim>\<open>rand.Read\<close>
  delivers the same two bytes generate the same identifier: nothing compares it with the
  tracked ones and it is not generated again. When git accepts the second working copy,
  the second agent replaces the first in the tracked state.
\<close>

theorem create_twice_same_id:
  "map_sum (\<lambda>e. e) ID
     (snd (snd (CreateWorktree example_env example_manager example_world ''Fix login''))) =
     Inr ''cwt-20250104-a1b2'' \<and>
   map_sum (\<lambda>e. e) ID
     (snd (snd (CreateWorktree example_env
        (fst (snd (CreateWorktree example_env example_manager example_world ''Fix login'')))
        (fst (CreateWorktree example_env example_manager example_world ''Fix login''))
        ''Other task''))) = Inr ''cwt-20250104-a1b2'' \<and>
   map_option Task (GetAgent (state (fst (snd (CreateWorktree example_env
        (fst (snd (CreateWorktree example_env example_manager example_world ''Fix login'')))
        (fst (CreateWorktree example_env example_manager example_world ''Fix login''))
        ''Other task'')))) ''cwt-20250104-a1b2'') = Some ''Other task'' \<and>
   fmdom (Agents (state (fst (snd (CreateWorktree example_env
        (fst (snd (CreateWorktree example_env example_manager example_world ''Fix login'')))
        (fst (CreateWorktree example_env example_manager example_world ''Fix login''))
        ''Other task''))))) = {|''cwt-20250104-a1b2''|}"
  by code_simp

section \<open>Properties of the ring buffer\<close>

lemma read_loop_ok:
  "0 < size_rb r \<Longrightarrow> length (data r) = size_rb r \<Longrightarrow>
   read_loop r is = Inr (map (\<lambda>i. data r ! ((start r + i) mod size_rb r)) is)"
  by (induction "is") (simp_all add: Let_def not_le)

lemma Bytes_contents: "rb_inv c r \<Longrightarrow> Bytes r = Inr (rb_contents r)"
  by (simp add: Bytes_def rb_contents_def rb_inv_def read_loop_ok)

lemma mod_shift_le:
  fixes s c i j :: nat
  assumes "i \<le> j" "j < c" "(s + i) mod c = (s + j) mod c"
  shows "i = j"
proof -
  have "s + i \<le> s + j" using assms(1) by simp
  then have "c dvd (s + j) - (s + i)"
    using assms(3) mod_eq_dvd_iff_nat[of "s + i" "s + j" c] by simp
  then have "c dvd j - i" by simp
  moreover have "j - i < c" using assms(2) by simp
  ultimately have "j - i = 0" using dvd_imp_le by fastforce
  then show ?thesis using assms(1) by simp
qed

lemma mod_shift_inj:
  fixes s c i j :: nat
  assumes "i < c" "j < c" "(s + i) mod c = (s + j) mod c"
  shows "i = j"
proof (cases "i \<le> j")
  case True
  then show ?thesis using mod_shift_le assms by blast
next
  case False
  then have "j = i" using mod_shift_le[of j i c s] assms by simp
  then show ?thesis by simp
qed

lemma write_byte_step:
  assumes inv: "rb_inv c r"
  shows "\<exists>r'. write_byte r b = Inr r' \<and> rb_inv c r' \<and>
           rb_contents r' = last_n c (rb_contents r @ [b])"
proof (cases "len r < c")
  case True
  let ?pos = "(start r + len r) mod c"
  let ?r' = "r\<lparr>data := (data r)[?pos := b], len := len r + 1\<rparr>"
  have c: "0 < c" "size_rb r = c" "length (data r) = c" "start r < c"
    using inv by (simp_all add: rb_inv_def)
  have w: "write_byte r b = Inr ?r'"
    using c True by (simp add: write_byte_def Let_def not_le)
  have i: "rb_inv c ?r'" using c True by (simp add: rb_inv_def)
  have old: "?pos \<noteq> (start r + i) mod c" if "i < len r" for i
    using mod_shift_inj[of i c "len r" "start r"] True that by auto
  have "rb_contents ?r' = rb_contents r @ [b]"
    using c old by (simp add: rb_contents_def)
  moreover have "last_n c (rb_contents r @ [b]) = rb_contents r @ [b]"
    using True by (simp add: last_n_def rb_contents_def)
  ultimately show ?thesis using w i by simp
next
  case False
  have c: "0 < c" "size_rb r = c" "length (data r) = c" "start r < c" "len r = c"
    using inv False by (simp_all add: rb_inv_def)
  let ?r' = "r\<lparr>data := (data r)[start r := b], start := (start r + 1) mod c\<rparr>"
  have w: "write_byte r b = Inr ?r'"
    using c by (simp add: write_byte_def Let_def not_le)
  have i: "rb_inv c ?r'" using c by (simp add: rb_inv_def)
  have len: "length (rb_contents ?r') = c" "length (rb_contents r) = c"
    using c by (simp_all add: rb_contents_def)
  have "rb_contents ?r' = tl (rb_contents r) @ [b]"
  proof (rule nth_equalityI)
    show "length (rb_contents ?r') = length (tl (rb_contents r) @ [b])"
      using len c by simp
  next
    fix i assume "i < length (rb_contents ?r')"
    then have ic: "i < c" using len by simp
    have "((start r + 1) mod c + i) mod c = ((start r + 1) + i) mod c"
      by (rule mod_add_left_eq)
    then have idx: "((start r + 1) mod c + i) mod c = (start r + (i + 1)) mod c"
      by (simp add: add.commute add.left_commute)
    have new: "rb_contents ?r' ! i = (data r)[start r := b] ! ((start r + (i + 1)) mod c)"
      using ic c idx by (simp add: rb_contents_def)
    show "rb_contents ?r' ! i = (tl (rb_contents r) @ [b]) ! i"
    proof (cases "i + 1 < c")
      case True
      have "(start r + (i + 1)) mod c \<noteq> start r"
        using mod_shift_inj[of "i + 1" c 0 "start r"] True c by auto
      then have "rb_contents ?r' ! i = data r ! ((start r + (i + 1)) mod c)"
        using new by simp
      also have "\<dots> = rb_contents r ! (i + 1)"
        using True c by (simp add: rb_contents_def)
      also have "\<dots> = (tl (rb_contents r) @ [b]) ! i"
        using True len by (auto simp add: nth_append nth_tl)
      finally show ?thesis .
    next
      case False
      then have e: "i + 1 = c" using ic by simp
      have "(start r + (i + 1)) mod c = start r" using e c by simp
      then have "rb_contents ?r' ! i = b" using new c by simp
      moreover have "(tl (rb_contents r) @ [b]) ! i = b"
        using e len by (auto simp add: nth_append)
      ultimately show ?thesis by simp
    qed
  qed
  moreover have "last_n c (rb_contents r @ [b]) = tl (rb_contents r) @ [b]"
    using len c by (simp add: last_n_def drop_Suc)
  ultimately show ?thesis using w i by simp
qed

lemma last_n_app: "last_n c (last_n c xs @ ys) = last_n c (xs @ ys)"
  by (auto simp add: last_n_def min_def add.commute)

lemma write_loop_ok:
  "rb_inv c r \<Longrightarrow> \<exists>r'. write_loop r p = Inr r' \<and> rb_inv c r' \<and>
     rb_contents r' = last_n c (rb_contents r @ p)"
proof (induction p arbitrary: r)
  case Nil
  then show ?case by (simp add: last_n_def rb_contents_def rb_inv_def)
next
  case (Cons b p)
  from write_byte_step[OF Cons.prems, of b] obtain r1 where
    r1: "write_byte r b = Inr r1" "rb_inv c r1"
        "rb_contents r1 = last_n c (rb_contents r @ [b])" by blast
  from Cons.IH[OF r1(2)] obtain r' where
    r': "write_loop r1 p = Inr r'" "rb_inv c r'"
        "rb_contents r' = last_n c (rb_contents r1 @ p)" by blast
  have "rb_contents r' = last_n c (rb_contents r @ b # p)"
    using r'(3) r1(3) last_n_app[of c "rb_contents r @ [b]" p] by simp
  then show ?case using r1(1) r'(1,2) by simp
qed

lemma write_all_ok:
  "rb_inv c r \<Longrightarrow> \<exists>r'. write_all r ps = Inr (r', map (\<lambda>p. (length p, None)) ps) \<and>
     rb_inv c r' \<and> rb_contents r' = last_n c (rb_contents r @ concat ps)"
proof (induction ps arbitrary: r)
  case Nil
  then show ?case by (simp add: last_n_def rb_contents_def rb_inv_def)
next
  case (Cons p ps)
  from write_loop_ok[OF Cons.prems, of p] obtain r1 where
    r1: "write_loop r p = Inr r1" "rb_inv c r1"
        "rb_contents r1 = last_n c (rb_contents r @ p)" by blast
  from Cons.IH[OF r1(2)] obtain r' where
    r': "write_all r1 ps = Inr (r', map (\<lambda>p. (length p, None)) ps)" "rb_inv c r'"
        "rb_contents r' = last_n c (rb_contents r1 @ concat ps)" by blast
  have "rb_contents r' = last_n c (rb_contents r @ concat (p # ps))"
    using r'(3) r1(3) last_n_app[of c "rb_contents r @ p" "concat ps"] by simp
  then show ?case using r1(1) r'(1,2) by (simp add: Write_rb_def)
qed

lemma NewRingBuffer_inv: "0 < c \<Longrightarrow> rb_inv c (NewRingBuffer c)"
  by (simp add: rb_inv_def NewRingBuffer_def)

text \<open>
  Claim C10. On a new ring buffer of capacity \<open>c > 0\<close>, every \<open>Write\<close> of a finite
  sequence of writes returns the length of its input and no error, and \<open>Bytes\<close>
  afterwards returns the last \<open>min total c\<close> bytes of everything written, in order.
\<close>

theorem ring_buffer_keeps_tail:
  assumes "0 < c"
  shows "writes_then_Bytes c ps =
           Inr (map (\<lambda>p. (length p, None)) ps, last_n c (concat ps))"
proof -
  from write_all_ok[OF NewRingBuffer_inv[OF assms], of ps] obtain r' where
    r': "write_all (NewRingBuffer c) ps = Inr (r', map (\<lambda>p. (length p, None)) ps)"
        "rb_inv c r'"
        "rb_contents r' = last_n c (rb_contents (NewRingBuffer c) @ concat ps)" by blast
  have "rb_contents (NewRingBuffer c) = []"
    by (simp add: rb_contents_def NewRingBuffer_def)
  then show ?thesis
    using r' Bytes_contents[OF r'(2)] by (simp add: writes_then_Bytes_def)
qed

theorem ring_buffer_keeps_tail_witness:
  "(0::nat) < 3 \<and> writes_then_Bytes 3 [[1, 2], [3, 4, 5], [], [6]] =
       Inr ([(2, None), (3, None), (0, None), (1, None)], [4, 5, 6])"
  using ring_buffer_keeps_tail[of 3 "[[1, 2], [3, 4, 5], [], [6]]"]
  by (simp add: last_n_def)

section \<open>Properties of sessions and the registry\<close>

text \<open>
  Claim C9. \<open>Stop\<close> returns no error on every session, started or not, in every state of
  the operating system; a second \<open>Stop\<close> returns no error either and changes nothing; on a
  session that was never started it does nothing. After \<open>Stop\<close> the session's file is
  closed and its process is gone.
\<close>

theorem stop_idempotent:
  "snd (Stop os s) = None \<and>
   snd (Stop (fst (Stop os s)) s) = None \<and>
   fst (Stop (fst (Stop os s)) s) = fst (Stop os s) \<and>
   Stop os (NewSession sid workdir task) = (os, None) \<and>
   (case ptmx s of Some fd \<Rightarrow> fd \<notin> open_files (fst (Stop os s)) | None \<Rightarrow> True) \<and>
   (case cmd s of Some (Cmd (Some pid)) \<Rightarrow> pid \<notin> running (fst (Stop os s)) | _ \<Rightarrow> True)"
  by (auto simp add: Stop_def Let_def file_Close_def process_Kill_def NewSession_def
        split: option.splits Cmd.splits)

text \<open>An instance: a running session is stopped twice.\<close>

theorem stop_idempotent_witness:
  "snd (Stop example_os (the (fmlookup (sessions example_registry) ''main''))) = None \<and>
   fst (Stop example_os (the (fmlookup (sessions example_registry) ''main''))) =
     \<lparr>open_files = {}, running = {}\<rparr> \<and>
   Stop \<lparr>open_files = {}, running = {}\<rparr> (the (fmlookup (sessions example_registry) ''main'')) =
     (\<lparr>open_files = {}, running = {}\<rparr>, None)"
proof -
  let ?s = "the (fmlookup (sessions example_registry) ''main'')"
  have e: "fst (Stop example_os ?s) = \<lparr>open_files = {}, running = {}\<rparr>"
    by (simp add: Stop_def Let_def file_Close_def process_Kill_def example_os_def
          example_registry_def NewSession_def)
  from stop_idempotent[of example_os ?s] e show ?thesis
    by (metis prod.collapse)
qed



end
